theory Spec2Isabelle
  imports Complex_Main "HOL-Library.Multiset"
begin

section \<open>Technician dispatch service (app.py)\<close>

text \<open>
  A shallow embedding of \<^verbatim>\<open>app.py\<close>: the great-circle estimate, the routing
  resolver with its retry policy, the dispatch endpoint and the assignment listing.

  Conventions of the embedding.
  \<^item> Coordinates and the great-circle estimate are real numbers: the arithmetic of
    \<^verbatim>\<open>haversine_km\<close> is taken exactly, without rounding.
  \<^item> A routing distance is a Python float that may be a special value, because the
    endpoint compares distances with \<^verbatim>\<open>float("inf")\<close> and the JSON decoder of
    Python yields \<^verbatim>\<open>inf\<close>, \<^verbatim>\<open>-inf\<close> and \<^verbatim>\<open>nan\<close> for
    \<^verbatim>\<open>1e999\<close>, \<^verbatim>\<open>-1e999\<close> and \<^verbatim>\<open>NaN\<close>. A finite value is the real
    it stands for, and the conversion and the division that produce a routing distance
    round to the nearest double, as the machine does.
  \<^item> Every exception of the source is a value: \<open>Inl\<close> of a sum type.
  \<^item> The database is a record of three tables, a sequence and a clock; the rows of a
    table hold values of the types of its columns. The routing service is a function
    giving the reply to each attempt of each task.
\<close>

subsection \<open>Python floats\<close>

datatype pyfloat = Fin real | PosInf | NegInf | NaN

text \<open>The comparison \<^verbatim>\<open>a < b\<close> of two floats: false whenever one side is NaN.\<close>

fun float_lt :: "pyfloat \<Rightarrow> pyfloat \<Rightarrow> bool" where
  "float_lt NaN _ = False"
| "float_lt _ NaN = False"
| "float_lt (Fin a) (Fin b) = (a < b)"
| "float_lt (Fin a) PosInf = True"
| "float_lt (Fin a) NegInf = False"
| "float_lt PosInf _ = False"
| "float_lt NegInf NegInf = False"
| "float_lt NegInf _ = True"

text \<open>Rounding of a real to the nearest integer, a tie to the even one.\<close>

definition round_half_even :: "real \<Rightarrow> int" where
  "round_half_even q =
     (let f = \<lfloor>q\<rfloor>; d = q - of_int f
      in if d < 1 / 2 then f else if 1 / 2 < d then f + 1 else if even f then f else f + 1)"

text \<open>
  The double nearest to a real (IEEE 754 binary64, round to nearest, ties to even): 53
  bits in the binade of the real, the least exponent -1022, and infinity from
  \<open>2\<^sup>1\<^sup>0\<^sup>2\<^sup>4\<close> on.
\<close>

definition round_double :: "real \<Rightarrow> pyfloat" where
  "round_double x =
     (if x = 0 then Fin 0
      else let e = max \<lfloor>log 2 \<bar>x\<bar>\<rfloor> (- 1022);
               ulp = 2 powi (e - 52);
               y = of_int (round_half_even (x / ulp)) * ulp
           in if 2 ^ 1024 \<le> \<bar>y\<bar> then (if 0 < y then PosInf else NegInf) else Fin y)"

text \<open>The division \<^verbatim>\<open>x / 1000.0\<close>: infinities and NaN are kept.\<close>

fun div_1000 :: "pyfloat \<Rightarrow> pyfloat" where
  "div_1000 (Fin r) = round_double (r / 1000)"
| "div_1000 PosInf = PosInf"
| "div_1000 NegInf = NegInf"
| "div_1000 NaN = NaN"

subsection \<open>Geometric estimator\<close>

text \<open>\<^verbatim>\<open>math.radians\<close>.\<close>

definition radians :: "real \<Rightarrow> real" where
  "radians x = x * (pi / 180)"

text \<open>The local \<^verbatim>\<open>R = 6371.0\<close> of \<^verbatim>\<open>haversine_km\<close>.\<close>

definition R :: real where
  "R = 6371"

text \<open>The local \<^verbatim>\<open>a\<close> of \<^verbatim>\<open>haversine_km\<close>.\<close>

definition haversine_a :: "real \<Rightarrow> real \<Rightarrow> real \<Rightarrow> real \<Rightarrow> real" where
  "haversine_a lat1 lon1 lat2 lon2 =
     (let phi1 = radians lat1; phi2 = radians lat2;
          dphi = radians (lat2 - lat1);
          dlambda = radians (lon2 - lon1)
      in (sin (dphi / 2))\<^sup>2 + cos phi1 * cos phi2 * (sin (dlambda / 2))\<^sup>2)"

definition haversine_km :: "real \<Rightarrow> real \<Rightarrow> real \<Rightarrow> real \<Rightarrow> real" where
  "haversine_km lat1 lon1 lat2 lon2 =
     2 * R * arcsin (sqrt (haversine_a lat1 lon1 lat2 lon2))"

subsection \<open>Decoded JSON and the Python operations applied to it\<close>

text \<open>
  The value \<^verbatim>\<open>resp.json()\<close> returns. \<open>JObj\<close> is a Python \<^verbatim>\<open>dict\<close> given by
  its items; a key is looked up with \<open>map_of\<close>. \<open>JNull\<close> is \<^verbatim>\<open>None\<close>. A JSON
  number without fraction or exponent decodes to an \<^verbatim>\<open>int\<close>, any other to a
  \<^verbatim>\<open>float\<close>.
\<close>

datatype json =
    JNull
  | JBool bool
  | JInt int
  | JFloat pyfloat
  | JStr string
  | JArr "json list"
  | JObj "(string \<times> json) list"

datatype py_error =
    TransportError
  | HTTPStatusError
  | JSONDecodeError
  | AttributeError
  | KeyError
  | IndexError
  | TypeError
  | OverflowError
  | ValueError string

text \<open>Truth value of an object, as \<^verbatim>\<open>or\<close> and \<^verbatim>\<open>not\<close> test it.\<close>

fun truthy :: "json \<Rightarrow> bool" where
  "truthy JNull = False"
| "truthy (JBool b) = b"
| "truthy (JInt n) = (n \<noteq> 0)"
| "truthy (JFloat x) = (x \<noteq> Fin 0)"
| "truthy (JStr s) = (s \<noteq> [])"
| "truthy (JArr xs) = (xs \<noteq> [])"
| "truthy (JObj kvs) = (kvs \<noteq> [])"

text \<open>\<^verbatim>\<open>x or d\<close>.\<close>

definition py_or :: "json \<Rightarrow> json \<Rightarrow> json" where
  "py_or x d = (if truthy x then x else d)"

text \<open>
  \<^verbatim>\<open>x.get(k, d)\<close>: only a dict has the method; any other object raises
  \<^verbatim>\<open>AttributeError\<close>. \<^verbatim>\<open>x.get(k)\<close> is \<open>dict_get x k JNull\<close>.
\<close>

fun dict_get :: "json \<Rightarrow> string \<Rightarrow> json \<Rightarrow> py_error + json" where
  "dict_get (JObj kvs) k d = Inr (case map_of kvs k of None \<Rightarrow> d | Some v \<Rightarrow> v)"
| "dict_get _ k d = Inl AttributeError"

text \<open>\<^verbatim>\<open>x[0]\<close>.\<close>

fun subscript0 :: "json \<Rightarrow> py_error + json" where
  "subscript0 (JArr []) = Inl IndexError"
| "subscript0 (JArr (x # xs)) = Inr x"
| "subscript0 (JStr []) = Inl IndexError"
| "subscript0 (JStr (c # cs)) = Inr (JStr [c])"
| "subscript0 (JObj kvs) = Inl KeyError"
| "subscript0 _ = Inl TypeError"

text \<open>
  \<^verbatim>\<open>float(x)\<close>. An \<^verbatim>\<open>int\<close> becomes the nearest double, and one that rounds
  beyond the largest double raises \<^verbatim>\<open>OverflowError\<close>. The parser of \<^verbatim>\<open>float\<close> on a \<^verbatim>\<open>str\<close> is the
  parameter \<open>str_float\<close>: \<open>None\<close> where it raises \<^verbatim>\<open>ValueError\<close>.
\<close>

fun py_float :: "(string \<Rightarrow> pyfloat option) \<Rightarrow> json \<Rightarrow> py_error + pyfloat" where
  "py_float str_float (JInt n) =
     (case round_double (of_int n) of
        Fin r \<Rightarrow> Inr (Fin r)
      | _ \<Rightarrow> Inl OverflowError)"
| "py_float str_float (JFloat x) = Inr x"
| "py_float str_float (JBool b) = Inr (Fin (if b then 1 else 0))"
| "py_float str_float (JStr s) =
     (case str_float s of
        None \<Rightarrow> Inl (ValueError ''could not convert string to float'')
      | Some x \<Rightarrow> Inr x)"
| "py_float str_float _ = Inl TypeError"

text \<open>Sequencing of statements that may raise.\<close>

definition bind_err :: "py_error + 'a \<Rightarrow> ('a \<Rightarrow> py_error + 'b) \<Rightarrow> py_error + 'b" where
  "bind_err m f = (case m of Inl e \<Rightarrow> Inl e | Inr v \<Rightarrow> f v)"

subsection \<open>Routing resolver\<close>

text \<open>
  What one \<^verbatim>\<open>client.get\<close> comes back with: \<open>NoReply\<close> when the call itself raises
  (transport error, timeout); otherwise a response, with whether
  \<^verbatim>\<open>raise_for_status\<close> accepts its status and the decoded body (\<open>None\<close> when
  \<^verbatim>\<open>resp.json()\<close> raises).
\<close>

datatype http_reply = NoReply | Reply bool "json option"

text \<open>The body of \<^verbatim>\<open>get_distance_km\<close>: one attempt, from the reply it received.\<close>

definition get_distance_attempt ::
  "(string \<Rightarrow> pyfloat option) \<Rightarrow> http_reply \<Rightarrow> py_error + pyfloat" where
  "get_distance_attempt str_float resp =
     (case resp of
        NoReply \<Rightarrow> Inl TransportError
      | Reply status_ok body \<Rightarrow>
          if \<not> status_ok then Inl HTTPStatusError
          else (case body of
              None \<Rightarrow> Inl JSONDecodeError
            | Some data \<Rightarrow>
                bind_err (dict_get data ''features'' JNull) (\<lambda>f.
                  let features = py_or f (JArr []) in
                  if \<not> truthy features then Inl (ValueError ''ORS returned no features'')
                  else
                    bind_err (subscript0 features) (\<lambda>feature.
                    bind_err (dict_get feature ''properties'' (JObj [])) (\<lambda>properties.
                    bind_err (dict_get properties ''summary'' JNull) (\<lambda>sm.
                      let summary = py_or sm (JObj []) in
                      bind_err (dict_get summary ''distance'' JNull) (\<lambda>distance_m.
                        case distance_m of
                          JNull \<Rightarrow> Inl (ValueError ''ORS response missing distance'')
                        | _ \<Rightarrow> bind_err (py_float str_float distance_m)
                                 (\<lambda>x. Inr (div_1000 x)))))))))"

text \<open>
  Modelled from the spec: the decorator \<^verbatim>\<open>@retry\<close> and its policies
  \<^verbatim>\<open>wait_exponential\<close> and \<^verbatim>\<open>stop_after_attempt\<close> come from the package
  tenacity, whose code is not among the sources. Section 4.3 of the specification gives
  the policy: up to 3 total attempts, exponential backoff starting at 1 time-unit, capped
  at 10 time-units, doubling each attempt, the final attempt's failure surfaced. The
  arguments \<^verbatim>\<open>min=1\<close>, \<^verbatim>\<open>max=10\<close>, \<^verbatim>\<open>stop_after_attempt(3)\<close> and
  \<^verbatim>\<open>reraise=True\<close> are those of the decorator in \<^verbatim>\<open>app.py\<close>.
\<close>

definition wait_exponential :: "nat \<Rightarrow> nat \<Rightarrow> nat \<Rightarrow> nat" where
  "wait_exponential mn mx attempt_number =
     max (max 0 mn) (min (1 * 2 ^ (attempt_number - 1)) mx)"

definition stop_after_attempt :: "nat \<Rightarrow> nat \<Rightarrow> bool" where
  "stop_after_attempt max_attempt_number attempt_number =
     (attempt_number \<ge> max_attempt_number)"

text \<open>What a resolver does, in order: it calls the service, or it sleeps.\<close>

datatype event = Attempt nat | Sleep nat

text \<open>
  Modelled from the spec: the retry loop of tenacity (see above). \<open>fn n\<close> is the
  outcome of attempt number \<open>n\<close>, counted from 1. With \<^verbatim>\<open>reraise=True\<close> the
  exception of the last attempt is the one raised.
\<close>

function retry :: "(nat \<Rightarrow> py_error + 'a) \<Rightarrow> nat \<Rightarrow> (py_error + 'a) \<times> event list" where
  "retry fn attempt_number =
     (case fn attempt_number of
        Inr v \<Rightarrow> (Inr v, [Attempt attempt_number])
      | Inl e \<Rightarrow>
          if stop_after_attempt 3 attempt_number then (Inl e, [Attempt attempt_number])
          else (let (r, tr) = retry fn (Suc attempt_number)
                in (r, Attempt attempt_number
                       # Sleep (wait_exponential 1 10 attempt_number) # tr)))"
  by pat_completeness auto
termination
  by (relation "measure (\<lambda>(fn, n). 3 - n)") (auto simp: stop_after_attempt_def)

declare retry.simps [simp del]

text \<open>
  The routing service: the reply to attempt \<open>n\<close> of the task at position \<open>task\<close> of
  the shortlist, for the request it sends. A request is the pair of the parameters
  \<^verbatim>\<open>start\<close> and \<^verbatim>\<open>end\<close>, each a longitude and a latitude.
\<close>

type_synonym request = "(real \<times> real) \<times> (real \<times> real)"

record env =
  service :: "nat \<Rightarrow> request \<Rightarrow> nat \<Rightarrow> http_reply"
  str_float :: "string \<Rightarrow> pyfloat option"

text \<open>The decorated \<^verbatim>\<open>get_distance_km\<close>, as the task at position \<open>task\<close>.\<close>

definition get_distance_km ::
  "env \<Rightarrow> nat \<Rightarrow> real \<Rightarrow> real \<Rightarrow> real \<Rightarrow> real \<Rightarrow> (py_error + pyfloat) \<times> event list" where
  "get_distance_km env task lat1 lon1 lat2 lon2 =
     (let params = ((lon1, lat1), (lon2, lat2))
      in retry (\<lambda>n. get_distance_attempt (str_float env) (service env task params n)) 1)"

subsection \<open>The store\<close>

type_synonym timestamp = int

record customer_row =
  customerid :: int
  cust_latitude :: real
  cust_longitude :: real

record technician_row =
  technicianid :: int
  latitude :: real
  longitude :: real
  is_active :: "bool option"

text \<open>A row of \<^verbatim>\<open>public.assignments\<close>, and equally an \<^verbatim>\<open>AssignmentModel\<close>.\<close>

record assignment =
  assignment_id :: int
  cust_id :: int
  tech_id :: int
  distance_km :: pyfloat
  assigned_at :: timestamp

text \<open>
  The tables, the sequence behind \<^verbatim>\<open>id SERIAL\<close> and the clock \<^verbatim>\<open>now()\<close> reads.
\<close>

record store =
  customers :: "customer_row list"
  technicians :: "technician_row list"
  assignments :: "assignment list"
  assignments_id_seq :: int
  clock :: timestamp

text \<open>
  What a call of the endpoint ends in when it returns no assignment: one of the three
  \<^verbatim>\<open>HTTPException\<close>s it raises, or the \<^verbatim>\<open>DataError\<close> of the database driver,
  which it does not catch.
\<close>

datatype dispatch_error =
    CustomerNotFound int
  | NoTechniciansAvailable
  | NoResolvableTechnician
  | DataError

text \<open>
  The values of an \<^verbatim>\<open>INTEGER\<close> column (\<^verbatim>\<open>SERIAL\<close> is one): the driver
  encodes a query argument for such a column in 32 bits and raises \<^verbatim>\<open>DataError\<close> for
  a Python \<^verbatim>\<open>int\<close> outside them.
\<close>

definition int4_range :: "int \<Rightarrow> bool" where
  "int4_range n = (- (2 ^ 31) \<le> n \<and> n < 2 ^ 31)"

text \<open>
  \<^verbatim>\<open>SELECT ... FROM public.customers WHERE customerid = $1\<close>, one row or none;
  the argument is the path parameter \<^verbatim>\<open>cust_id\<close>, any Python \<^verbatim>\<open>int\<close>.
\<close>

definition fetch_customer :: "store \<Rightarrow> int \<Rightarrow> dispatch_error + customer_row option" where
  "fetch_customer s cid =
     (if int4_range cid then Inr (find (\<lambda>c. customerid c = cid) (customers s))
      else Inl DataError)"

text \<open>\<^verbatim>\<open>SELECT ... FROM public.technicians WHERE is_active = TRUE\<close>.\<close>

definition fetch_active_technicians :: "store \<Rightarrow> technician_row list" where
  "fetch_active_technicians s = filter (\<lambda>t. is_active t = Some True) (technicians s)"

text \<open>\<^verbatim>\<open>INSERT INTO public.assignments ... RETURNING id, assigned_at\<close>, and the model built from it.\<close>

definition insert_assignment :: "store \<Rightarrow> int \<Rightarrow> int \<Rightarrow> pyfloat \<Rightarrow> assignment \<times> store" where
  "insert_assignment s cid best_id best_dist =
     (let row = \<lparr>assignment_id = assignments_id_seq s, cust_id = cid, tech_id = best_id,
                 distance_km = best_dist, assigned_at = clock s\<rparr>
      in (row, s\<lparr>assignments := assignments s @ [row],
                 assignments_id_seq := assignments_id_seq s + 1\<rparr>))"

subsection \<open>Dispatch\<close>

text \<open>
  The \<^verbatim>\<open>status_code\<close> of the \<^verbatim>\<open>HTTPException\<close> raised for each, and the
  status of the response to an exception that is not caught.
\<close>

fun status_code :: "dispatch_error \<Rightarrow> nat" where
  "status_code (CustomerNotFound cid) = 404"
| "status_code NoTechniciansAvailable = 503"
| "status_code NoResolvableTechnician = 503"
| "status_code DataError = 500"

definition TOP_K :: nat where
  "TOP_K = 5"

text \<open>A candidate is the tuple \<^verbatim>\<open>(est, tech_id, tlat, tlon)\<close>.\<close>

type_synonym candidate = "real \<times> int \<times> real \<times> real"

text \<open>
  The candidates, sorted by estimate and cut to \<^verbatim>\<open>TOP_K\<close>. \<^verbatim>\<open>list.sort\<close> is
  stable, as \<open>sort_key\<close> is.
\<close>

definition shortlist :: "real \<Rightarrow> real \<Rightarrow> technician_row list \<Rightarrow> candidate list" where
  "shortlist cust_lat cust_lon tech_rows =
     (let candidates =
            map (\<lambda>r. (haversine_km cust_lat cust_lon (latitude r) (longitude r),
                       technicianid r, latitude r, longitude r)) tech_rows
      in take TOP_K (sort_key fst candidates))"

text \<open>
  The tasks, one per candidate of the shortlist, each run to its end
  (\<^verbatim>\<open>ALL_COMPLETED\<close>): the result and the events of the task at each position.
\<close>

definition run_tasks ::
  "env \<Rightarrow> real \<Rightarrow> real \<Rightarrow> candidate list \<Rightarrow> ((py_error + pyfloat) \<times> event list) list" where
  "run_tasks env cust_lat cust_lon sl =
     map (\<lambda>(idx, (est, tid, tlat, tlon)). get_distance_km env idx cust_lat cust_lon tlat tlon)
         (enumerate 0 sl)"

text \<open>
  The loop over \<^verbatim>\<open>enumerate(tasks)\<close>, on the pairs of \<^verbatim>\<open>shortlist[idx][1]\<close> and
  \<^verbatim>\<open>fut.result()\<close>, from the state \<open>(best_id, best_dist)\<close>.
\<close>

fun best_loop ::
  "(int \<times> (py_error + pyfloat)) list \<Rightarrow> int option \<times> pyfloat \<Rightarrow> int option \<times> pyfloat" where
  "best_loop [] (best_id, best_dist) = (best_id, best_dist)"
| "best_loop ((tid, Inl e) # rest) (best_id, best_dist) = best_loop rest (best_id, best_dist)"
| "best_loop ((tid, Inr d) # rest) (best_id, best_dist) =
     (if float_lt d best_dist then best_loop rest (Some tid, d)
      else best_loop rest (best_id, best_dist))"

text \<open>The pairs that loop runs over: position by position, the technician and its result.\<close>

definition outcomes ::
  "candidate list \<Rightarrow> ((py_error + pyfloat) \<times> event list) list \<Rightarrow>
     (int \<times> (py_error + pyfloat)) list" where
  "outcomes sl tasks = zip (map (\<lambda>(est, tid, tlat, tlon). tid) sl) (map fst tasks)"

text \<open>
  \<^verbatim>\<open>dispatch_one\<close>: the response or the error, the store after the call, and for
  each task started the request it sends with its events.
\<close>

definition dispatch_one ::
  "env \<Rightarrow> store \<Rightarrow> int \<Rightarrow>
     (dispatch_error + assignment) \<times> store \<times> (request \<times> event list) list" where
  "dispatch_one env s cid =
     (case fetch_customer s cid of
        Inl e \<Rightarrow> (Inl e, s, [])
      | Inr None \<Rightarrow> (Inl (CustomerNotFound cid), s, [])
      | Inr (Some customer) \<Rightarrow>
          let cust_lat = cust_latitude customer; cust_lon = cust_longitude customer;
              tech_rows = fetch_active_technicians s
          in if tech_rows = [] then (Inl NoTechniciansAvailable, s, [])
             else
               let sl = shortlist cust_lat cust_lon tech_rows;
                   tasks = run_tasks env cust_lat cust_lon sl;
                   routing = zip (map (\<lambda>(est, tid, tlat, tlon).
                                        ((cust_lon, cust_lat), (tlon, tlat))) sl)
                                 (map snd tasks);
                   (best_id, best_dist) = best_loop (outcomes sl tasks) (None, PosInf)
               in case best_id of
                    None \<Rightarrow> (Inl NoResolvableTechnician, s, routing)
                  | Some tid \<Rightarrow>
                      let (row, s') = insert_assignment s cid tid best_dist
                      in (Inr row, s', routing))"

subsection \<open>Listing\<close>

text \<open>
  \<^verbatim>\<open>SELECT ... FROM public.assignments ORDER BY assigned_at DESC\<close>, each row made
  an \<^verbatim>\<open>AssignmentModel\<close>. Rows of equal timestamp keep their order of insertion.
\<close>

definition list_assignments :: "store \<Rightarrow> assignment list" where
  "list_assignments s =
     map (\<lambda>r. \<lparr>assignment_id = assignment_id r, cust_id = cust_id r, tech_id = tech_id r,
               distance_km = distance_km r, assigned_at = assigned_at r\<rparr>)
         (sort_key (\<lambda>r. - assigned_at r) (assignments s))"

subsection \<open>A scenario\<close>

text \<open>
  The scenario of the specification: a customer at (0, 0) and one active technician at
  (0, 1), with a routing service that answers every request with the same route, of the
  distance given.
\<close>

definition scenario_store :: store where
  "scenario_store =
     \<lparr>customers = [\<lparr>customerid = 1, cust_latitude = 0, cust_longitude = 0\<rparr>],
      technicians = [\<lparr>technicianid = 7, latitude = 0, longitude = 1, is_active = Some True\<rparr>],
      assignments = [], assignments_id_seq = 1, clock = 0\<rparr>"

definition route_body :: "json \<Rightarrow> json" where
  "route_body distance =
     JObj [(''features'',
            JArr [JObj [(''properties'', JObj [(''summary'', JObj [(''distance'', distance)])])]])]"

definition route_env :: "json \<Rightarrow> env" where
  "route_env distance =
     \<lparr>service = (\<lambda>task params n. Reply True (Some (route_body distance))),
      str_float = (\<lambda>s. None)\<rparr>"

text \<open>A routing service that is down: no request gets a reply.\<close>

definition down_env :: env where
  "down_env = \<lparr>service = (\<lambda>task params n. NoReply), str_float = (\<lambda>s. None)\<rparr>"

text \<open>
  A second scenario: the same customer, one inactive technician and three active ones at
  the same place, so that the shortlist keeps the order of the rows. The route of the
  first task is 5000 long, that of every other task 3000.
\<close>

definition team_store :: store where
  "team_store =
     \<lparr>customers = [\<lparr>customerid = 1, cust_latitude = 0, cust_longitude = 0\<rparr>],
      technicians =
        [\<lparr>technicianid = 6, latitude = 0, longitude = 0, is_active = Some False\<rparr>,
         \<lparr>technicianid = 7, latitude = 0, longitude = 1, is_active = Some True\<rparr>,
         \<lparr>technicianid = 8, latitude = 0, longitude = 1, is_active = Some True\<rparr>,
         \<lparr>technicianid = 9, latitude = 0, longitude = 1, is_active = Some True\<rparr>],
      assignments = [], assignments_id_seq = 1, clock = 0\<rparr>"

definition team_env :: env where
  "team_env =
     \<lparr>service = (\<lambda>task params n.
         Reply True (Some (route_body (JFloat (Fin (if task = 0 then 5000 else 3000)))))),
      str_float = (\<lambda>s. None)\<rparr>"

section \<open>Properties\<close>

subsection \<open>Geometric estimator\<close>




lemma sin_sq_half: "(sin (x / 2))\<^sup>2 = (1 - cos (x::real)) / 2"
  using cos_double_sin [of "x / 2"] by simp

text \<open>
  The local \<open>a\<close> is a mixture, with weight \<open>sin\<^sup>2 (dlambda / 2)\<close>, of two numbers
  between 0 and 1, for any latitudes and longitudes whatever.
\<close>

lemma haversine_a_mixture:
  "haversine_a lat1 lon1 lat2 lon2 =
     (1 - cos (radians lat2 - radians lat1)) / 2 * (1 - (sin (radians (lon2 - lon1) / 2))\<^sup>2)
     + (1 + cos (radians lat1 + radians lat2)) / 2 * (sin (radians (lon2 - lon1) / 2))\<^sup>2"
proof -
  have r: "radians (lat2 - lat1) = radians lat2 - radians lat1"
    by (simp add: radians_def left_diff_distrib)
  show ?thesis
    unfolding haversine_a_def Let_def r sin_sq_half [of "radians lat2 - radians lat1"]
    by (simp add: cos_add cos_diff field_simps)
qed

lemma mixture_unit_interval:
  fixes p q t :: real
  assumes "0 \<le> p \<and> p \<le> 1" "0 \<le> q \<and> q \<le> 1" "0 \<le> t" "t \<le> 1"
  shows "0 \<le> p * (1 - t) + q * t \<and> p * (1 - t) + q * t \<le> 1"
proof -
  have "p * (1 - t) \<le> 1 * (1 - t)" using assms by (intro mult_right_mono) auto
  moreover have "q * t \<le> 1 * t" using assms by (intro mult_right_mono) auto
  moreover have "0 \<le> p * (1 - t)" using assms by simp
  moreover have "0 \<le> q * t" using assms by simp
  ultimately show ?thesis by simp
qed

lemma half_unit_interval:
  "- 1 \<le> c \<Longrightarrow> c \<le> (1::real) \<Longrightarrow>
     0 \<le> (1 + c) / 2 \<and> (1 + c) / 2 \<le> 1 \<and> 0 \<le> (1 - c) / 2 \<and> (1 - c) / 2 \<le> 1"
  by simp

text \<open>
  The argument of \<^verbatim>\<open>math.sqrt\<close> is never negative and that of \<^verbatim>\<open>math.asin\<close>
  never above 1: in exact arithmetic neither call can raise.
\<close>

lemma haversine_a_range:
  "0 \<le> haversine_a lat1 lon1 lat2 lon2 \<and> haversine_a lat1 lon1 lat2 lon2 \<le> 1"
proof -
  let ?t = "(sin (radians (lon2 - lon1) / 2))\<^sup>2"
  let ?p = "(1 - cos (radians lat2 - radians lat1)) / 2"
  let ?q = "(1 + cos (radians lat1 + radians lat2)) / 2"
  have t: "0 \<le> ?t" "?t \<le> 1"
    by (simp_all add: abs_square_le_1)
  have p: "0 \<le> ?p \<and> ?p \<le> 1"
    using half_unit_interval [OF cos_ge_minus_one cos_le_one, of "radians lat2 - radians lat1"]
    by simp
  have q: "0 \<le> ?q \<and> ?q \<le> 1"
    using half_unit_interval [OF cos_ge_minus_one cos_le_one, of "radians lat1 + radians lat2"]
    by simp
  show ?thesis
    unfolding haversine_a_mixture using mixture_unit_interval [OF p q t] by simp
qed

lemma haversine_km_nonneg: "0 \<le> haversine_km lat1 lon1 lat2 lon2"
proof -
  have "0 \<le> sqrt (haversine_a lat1 lon1 lat2 lon2)"
    using haversine_a_range by simp
  moreover have "sqrt (haversine_a lat1 lon1 lat2 lon2) \<le> 1"
    using haversine_a_range [of lat1 lon1 lat2 lon2] by simp
  ultimately have "0 \<le> arcsin (sqrt (haversine_a lat1 lon1 lat2 lon2))"
    using arcsin_le_arcsin [of 0 "sqrt (haversine_a lat1 lon1 lat2 lon2)"] by simp
  then show ?thesis by (simp add: haversine_km_def R_def)
qed


subsection \<open>Shortlist\<close>









subsection \<open>Rounding\<close>

lemma floor_log2_eqI:
  assumes "2 powi e \<le> x" "x < 2 powi (e + 1)"
  shows "\<lfloor>log 2 x\<rfloor> = e"
proof -
  have "0 < (2::real) powi e" by simp
  with assms have "0 < x" by linarith
  moreover have "2 powr (of_int e) = (2::real) powi e"
    by (simp add: powr_real_of_int')
  moreover have "2 powr (of_int e + 1) = (2::real) powi (e + 1)"
    using powr_real_of_int' [of 2 "e + 1"] by simp
  ultimately show ?thesis
    using assms by (simp add: floor_log_eq_powr_iff)
qed

text \<open>The double nearest to a real, once its binade is known.\<close>

lemma round_double_eval:
  assumes "2 powi e \<le> \<bar>x\<bar>" "\<bar>x\<bar> < 2 powi (e + 1)" "- 1022 \<le> e"
    and "round_half_even (x / 2 powi (e - 52)) = m"
  shows "round_double x =
           (let y = of_int m * 2 powi (e - 52)
            in if 2 ^ 1024 \<le> \<bar>y\<bar> then (if 0 < y then PosInf else NegInf) else Fin y)"
proof -
  have "0 < (2::real) powi e" by simp
  with assms(1) have "0 < \<bar>x\<bar>" by linarith
  then have nz: "x \<noteq> 0" by simp
  have e: "\<lfloor>log 2 \<bar>x\<bar>\<rfloor> = e"
    using assms(1,2) by (rule floor_log2_eqI)
  show ?thesis
    using nz assms(3,4) by (simp add: round_double_def e Let_def max_def)
qed

text \<open>
  Values of the rounding: whole numbers that are doubles, a quotient that is not, a tie
  (\<open>2\<^sup>5\<^sup>3 + 1\<close> lies midway between two doubles) and an overflow.
\<close>

lemma round_double_111 [simp]: "round_double 111 = Fin 111"
  using round_double_eval [of 6 111 "111 * 2 ^ 46"]
  by (simp add: power_int_minus round_half_even_def)

lemma round_double_5 [simp]: "round_double 5 = Fin 5"
  using round_double_eval [of 2 5 "5 * 2 ^ 50"]
  by (simp add: power_int_minus round_half_even_def)

lemma round_double_3 [simp]: "round_double 3 = Fin 3"
  using round_double_eval [of 1 3 "3 * 2 ^ 51"]
  by (simp add: power_int_minus round_half_even_def)

lemma round_double_minus_1 [simp]: "round_double (- 1) = Fin (- 1)"
  using round_double_eval [of 0 "- 1" "- (2 ^ 52)"]
  by (simp add: power_int_minus round_half_even_def)

lemma round_double_quotient:
  "round_double (3001 / 2 / 1000) = Fin (6757651240869429 / 4503599627370496)"
  using round_double_eval [of 0 "3001 / 2 / 1000" "6757651240869429"]
  by (simp add: power_int_minus round_half_even_def)

lemma round_double_tie: "round_double 9007199254740993 = Fin 9007199254740992"
  using round_double_eval [of 53 "9007199254740993" "4503599627370496"]
  by (simp add: power_int_minus round_half_even_def)

lemma round_double_tie_quotient:
  "round_double (9007199254740992 / 1000) = Fin (1152921504606847 / 128)"
  using round_double_eval [of 43 "9007199254740992 / 1000" "4611686018427388"]
  by (simp add: power_int_minus round_half_even_def)

lemma round_double_overflow: "round_double (2 ^ 1024) = PosInf"
  using round_double_eval [of 1024 "2 ^ 1024" "2 ^ 52"]
  by (simp add: power_int_minus round_half_even_def)

subsection \<open>One attempt\<close>

lemma bind_err_Inr: "bind_err m f = Inr y \<longleftrightarrow> (\<exists>v. m = Inr v \<and> f v = Inr y)"
  by (cases m) (simp_all add: bind_err_def)

lemma bind_err_simps [simp]: "bind_err (Inl e) f = Inl e" "bind_err (Inr v) f = f v"
  by (simp_all add: bind_err_def)

lemma case_JNull:
  "(case v of JNull \<Rightarrow> a | JBool x \<Rightarrow> b | JInt x \<Rightarrow> b | JFloat x \<Rightarrow> b
      | JStr x \<Rightarrow> b | JArr x \<Rightarrow> b | JObj x \<Rightarrow> b) = (if v = JNull then a else b)"
  by (cases v) simp_all

lemma attempt_success:
  assumes "get_distance_attempt sf resp = Inr d"
  shows "\<exists>data features feature properties summary distance_m x.
           resp = Reply True (Some data)
         \<and> dict_get data ''features'' JNull = Inr features \<and> truthy features
         \<and> subscript0 features = Inr feature
         \<and> dict_get feature ''properties'' (JObj []) = Inr properties
         \<and> dict_get properties ''summary'' JNull = Inr summary \<and> truthy summary
         \<and> dict_get summary ''distance'' JNull = Inr distance_m \<and> distance_m \<noteq> JNull
         \<and> py_float sf distance_m = Inr x \<and> d = div_1000 x"
proof -
  from assms obtain data where resp: "resp = Reply True (Some data)"
    by (auto simp: get_distance_attempt_def split: http_reply.splits if_splits option.splits)
  from assms obtain f where f: "dict_get data ''features'' JNull = Inr f"
    by (auto simp: resp get_distance_attempt_def bind_err_Inr)
  let ?features = "py_or f (JArr [])"
  from assms f have tf: "truthy ?features"
    by (auto simp: resp get_distance_attempt_def Let_def split: if_splits)
  then have ff: "?features = f" by (auto simp: py_or_def split: if_splits)
  from assms f tf obtain feature properties sm where
      s0: "subscript0 ?features = Inr feature"
      and pr: "dict_get feature ''properties'' (JObj []) = Inr properties"
      and sm: "dict_get properties ''summary'' JNull = Inr sm"
    by (auto simp: resp get_distance_attempt_def Let_def bind_err_Inr)
  let ?summary = "py_or sm (JObj [])"
  from assms f tf s0 pr sm obtain distance_m x where
      dm: "dict_get ?summary ''distance'' JNull = Inr distance_m"
      and nn: "distance_m \<noteq> JNull"
      and x: "py_float sf distance_m = Inr x" and d: "d = div_1000 x"
    by (auto simp: resp get_distance_attempt_def Let_def bind_err_Inr case_JNull split: if_splits)
  have ts: "truthy sm"
  proof (rule ccontr)
    assume "\<not> truthy sm"
    then have "?summary = JObj []" by (simp add: py_or_def)
    with dm nn show False by simp
  qed
  then have ss: "?summary = sm" by (simp add: py_or_def)
  show ?thesis
    using resp f tf s0 pr sm ts dm nn x d unfolding ff ss by blast
qed

lemma attempt_well_formed:
  assumes "map_of data ''features'' = Some (JArr (JObj feature # rest))"
    and "map_of feature ''properties'' = Some (JObj properties)"
    and "map_of properties ''summary'' = Some (JObj summary)"
    and "map_of summary ''distance'' = Some distance_m" "distance_m \<noteq> JNull"
  shows "get_distance_attempt sf (Reply True (Some (JObj data))) =
           bind_err (py_float sf distance_m) (\<lambda>x. Inr (div_1000 x))"
proof -
  from assms(4) have "summary \<noteq> []" by auto
  then show ?thesis using assms
    by (simp add: get_distance_attempt_def py_or_def Let_def case_JNull)
qed

lemma attempt_no_features:
  assumes "map_of data ''features'' = None \<or> map_of data ''features'' = Some JNull \<or> map_of data ''features'' = Some (JArr [])"
  shows "get_distance_attempt sf (Reply True (Some (JObj data))) = Inl (ValueError ''ORS returned no features'')"
  using assms by (auto simp: get_distance_attempt_def py_or_def Let_def)

lemma attempt_no_distance:
  assumes "map_of data ''features'' = Some (JArr (JObj feature # rest))"
    and "map_of feature ''properties'' = Some (JObj properties)"
    and "map_of properties ''summary'' = Some (JObj summary)"
    and "map_of summary ''distance'' = None \<or> map_of summary ''distance'' = Some JNull"
  shows "get_distance_attempt sf (Reply True (Some (JObj data))) = Inl (ValueError ''ORS response missing distance'')"
  using assms by (auto simp: get_distance_attempt_def py_or_def Let_def case_JNull)

text \<open>
  C7. For a response of accepted status whose body has a first feature with properties
  and a summary: with a float as distance the attempt returns the double nearest to its
  quotient by 1000 (an infinity or a NaN as it is); with an integer, the double nearest to
  the quotient by 1000 of the double the integer converts to; and with no distance it
  fails. With no feature list, or an empty one, the attempt fails. And an attempt that
  returns a value at all had an accepted status, a body with a feature list that is not
  empty and a distance in the summary of the first feature, and returns the quotient by
  1000 of that distance as a float.
\<close>

theorem get_distance_attempt_result:
  "(map_of data ''features'' = Some (JArr (JObj feature # rest))
      \<and> map_of feature ''properties'' = Some (JObj properties)
      \<and> map_of properties ''summary'' = Some (JObj summary) \<longrightarrow>
        (map_of summary ''distance'' = Some (JFloat x) \<longrightarrow>
           get_distance_attempt sf (Reply True (Some (JObj data))) =
             Inr (case x of Fin r \<Rightarrow> round_double (r / 1000)
                  | PosInf \<Rightarrow> PosInf | NegInf \<Rightarrow> NegInf | NaN \<Rightarrow> NaN))
      \<and> (map_of summary ''distance'' = Some (JInt n) \<and> round_double (of_int n) = Fin m \<longrightarrow>
           get_distance_attempt sf (Reply True (Some (JObj data))) =
             Inr (round_double (m / 1000)))
      \<and> (map_of summary ''distance'' = None \<longrightarrow>
           get_distance_attempt sf (Reply True (Some (JObj data)))
             = Inl (ValueError ''ORS response missing distance'')))
   \<and> (map_of data ''features'' = None \<or> map_of data ''features'' = Some (JArr []) \<longrightarrow>
        get_distance_attempt sf (Reply True (Some (JObj data)))
          = Inl (ValueError ''ORS returned no features''))
   \<and> (get_distance_attempt sf resp = Inr d \<longrightarrow>
        (\<exists>body features feature properties summary distance_m v.
            resp = Reply True (Some body)
          \<and> dict_get body ''features'' JNull = Inr features \<and> truthy features
          \<and> subscript0 features = Inr feature
          \<and> dict_get feature ''properties'' (JObj []) = Inr properties
          \<and> dict_get properties ''summary'' JNull = Inr summary \<and> truthy summary
          \<and> dict_get summary ''distance'' JNull = Inr distance_m \<and> distance_m \<noteq> JNull
          \<and> py_float sf distance_m = Inr v
          \<and> d = (case v of Fin r \<Rightarrow> round_double (r / 1000)
                  | PosInf \<Rightarrow> PosInf | NegInf \<Rightarrow> NegInf | NaN \<Rightarrow> NaN)))"
proof (intro conjI impI)
  assume wf: "map_of data ''features'' = Some (JArr (JObj feature # rest))
      \<and> map_of feature ''properties'' = Some (JObj properties)
      \<and> map_of properties ''summary'' = Some (JObj summary)"
  {
    assume "map_of summary ''distance'' = Some (JFloat x)"
    with wf attempt_well_formed [of data feature rest properties summary "JFloat x" sf]
    show "get_distance_attempt sf (Reply True (Some (JObj data))) =
             Inr (case x of Fin r \<Rightarrow> round_double (r / 1000)
                  | PosInf \<Rightarrow> PosInf | NegInf \<Rightarrow> NegInf | NaN \<Rightarrow> NaN)"
      by (cases x) simp_all
  next
    assume "map_of summary ''distance'' = Some (JInt n) \<and> round_double (of_int n) = Fin m"
    with wf attempt_well_formed [of data feature rest properties summary "JInt n" sf]
    show "get_distance_attempt sf (Reply True (Some (JObj data))) =
             Inr (round_double (m / 1000))"
      by simp
  next
    assume "map_of summary ''distance'' = None"
    with wf attempt_no_distance [of data feature rest properties summary sf]
    show "get_distance_attempt sf (Reply True (Some (JObj data)))
             = Inl (ValueError ''ORS response missing distance'')"
      by simp
  }
next
  assume "map_of data ''features'' = None \<or> map_of data ''features'' = Some (JArr [])"
  then show "get_distance_attempt sf (Reply True (Some (JObj data)))
          = Inl (ValueError ''ORS returned no features'')"
    using attempt_no_features [of data sf] by blast
next
  assume "get_distance_attempt sf resp = Inr d"
  from attempt_success [OF this]
  obtain body features feature properties summary distance_m v where
      r: "resp = Reply True (Some body)"
        "dict_get body ''features'' JNull = Inr features" "truthy features"
        "subscript0 features = Inr feature"
        "dict_get feature ''properties'' (JObj []) = Inr properties"
        "dict_get properties ''summary'' JNull = Inr summary" "truthy summary"
        "dict_get summary ''distance'' JNull = Inr distance_m" "distance_m \<noteq> JNull"
        "py_float sf distance_m = Inr v" "d = div_1000 v"
    by blast
  have "d = (case v of Fin r \<Rightarrow> round_double (r / 1000)
                  | PosInf \<Rightarrow> PosInf | NegInf \<Rightarrow> NegInf | NaN \<Rightarrow> NaN)"
    using r(11) by (cases v) simp_all
  with r show "\<exists>body features feature properties summary distance_m v.
            resp = Reply True (Some body)
          \<and> dict_get body ''features'' JNull = Inr features \<and> truthy features
          \<and> subscript0 features = Inr feature
          \<and> dict_get feature ''properties'' (JObj []) = Inr properties
          \<and> dict_get properties ''summary'' JNull = Inr summary \<and> truthy summary
          \<and> dict_get summary ''distance'' JNull = Inr distance_m \<and> distance_m \<noteq> JNull
          \<and> py_float sf distance_m = Inr v
          \<and> d = (case v of Fin r \<Rightarrow> round_double (r / 1000)
                  | PosInf \<Rightarrow> PosInf | NegInf \<Rightarrow> NegInf | NaN \<Rightarrow> NaN)"
    by blast
qed

theorem get_distance_attempt_result_witness:
  "get_distance_attempt (\<lambda>s. None) (Reply True (Some (route_body (JFloat (Fin 111000)))))
     = Inr (Fin 111)
   \<and> get_distance_attempt (\<lambda>s. None) (Reply True (Some (route_body (JFloat (Fin (3001 / 2))))))
       = Inr (Fin (6757651240869429 / 4503599627370496))
   \<and> get_distance_attempt (\<lambda>s. None) (Reply True (Some (route_body (JFloat PosInf))))
       = Inr PosInf
   \<and> round_double (of_int 9007199254740993) = Fin 9007199254740992
   \<and> get_distance_attempt (\<lambda>s. None) (Reply True (Some (route_body (JInt 9007199254740993))))
       = Inr (Fin (1152921504606847 / 128))
   \<and> get_distance_attempt (\<lambda>s. None)
        (Reply True (Some (JObj [(''features'',
           JArr [JObj [(''properties'', JObj [(''summary'', JObj [(''duration'', JInt 60)])])]])])))
       = Inl (ValueError ''ORS response missing distance'')
   \<and> get_distance_attempt (\<lambda>s. None) (Reply True (Some (JObj [(''features'', JArr [])])))
       = Inl (ValueError ''ORS returned no features'')
   \<and> get_distance_attempt (\<lambda>s. None) (Reply True (Some (JObj [])))
       = Inl (ValueError ''ORS returned no features'')"
proof -
  note inst = get_distance_attempt_result [where sf = "\<lambda>s. None" and rest = "[]"]
  have w1: "get_distance_attempt (\<lambda>s. None)
              (Reply True (Some (route_body (JFloat (Fin 111000))))) = Inr (Fin 111)"
    using inst
      [where data = "[(''features'', JArr [JObj [(''properties'',
                        JObj [(''summary'', JObj [(''distance'', JFloat (Fin 111000))])])]])]"
         and feature = "[(''properties'',
                        JObj [(''summary'', JObj [(''distance'', JFloat (Fin 111000))])])]"
         and properties = "[(''summary'', JObj [(''distance'', JFloat (Fin 111000))])]"
         and summary = "[(''distance'', JFloat (Fin 111000))]" and x = "Fin 111000"]
    by (simp add: route_body_def)
  have w2: "get_distance_attempt (\<lambda>s. None)
              (Reply True (Some (route_body (JFloat (Fin (3001 / 2))))))
            = Inr (Fin (6757651240869429 / 4503599627370496))"
    using inst
      [where data = "[(''features'', JArr [JObj [(''properties'',
                        JObj [(''summary'', JObj [(''distance'', JFloat (Fin (3001 / 2)))])])]])]"
         and feature = "[(''properties'',
                        JObj [(''summary'', JObj [(''distance'', JFloat (Fin (3001 / 2)))])])]"
         and properties = "[(''summary'', JObj [(''distance'', JFloat (Fin (3001 / 2)))])]"
         and summary = "[(''distance'', JFloat (Fin (3001 / 2)))]" and x = "Fin (3001 / 2)"]
      round_double_quotient
    by (simp add: route_body_def)
  have w3: "get_distance_attempt (\<lambda>s. None)
              (Reply True (Some (route_body (JFloat PosInf)))) = Inr PosInf"
    using inst
      [where data = "[(''features'', JArr [JObj [(''properties'',
                        JObj [(''summary'', JObj [(''distance'', JFloat PosInf)])])]])]"
         and feature = "[(''properties'',
                        JObj [(''summary'', JObj [(''distance'', JFloat PosInf)])])]"
         and properties = "[(''summary'', JObj [(''distance'', JFloat PosInf)])]"
         and summary = "[(''distance'', JFloat PosInf)]" and x = PosInf]
    by (simp add: route_body_def)
  have t: "round_double (of_int 9007199254740993) = Fin 9007199254740992"
    using round_double_tie by simp
  have w4: "get_distance_attempt (\<lambda>s. None)
              (Reply True (Some (route_body (JInt 9007199254740993))))
            = Inr (Fin (1152921504606847 / 128))"
    using inst
      [where data = "[(''features'', JArr [JObj [(''properties'',
                        JObj [(''summary'', JObj [(''distance'', JInt 9007199254740993)])])]])]"
         and feature = "[(''properties'',
                        JObj [(''summary'', JObj [(''distance'', JInt 9007199254740993)])])]"
         and properties = "[(''summary'', JObj [(''distance'', JInt 9007199254740993)])]"
         and summary = "[(''distance'', JInt 9007199254740993)]"
         and n = 9007199254740993 and m = 9007199254740992]
      t round_double_tie_quotient
    by (simp add: route_body_def)
  have w5: "get_distance_attempt (\<lambda>s. None)
        (Reply True (Some (JObj [(''features'',
           JArr [JObj [(''properties'', JObj [(''summary'', JObj [(''duration'', JInt 60)])])]])])))
       = Inl (ValueError ''ORS response missing distance'')"
    using inst
      [where data = "[(''features'', JArr [JObj [(''properties'',
                        JObj [(''summary'', JObj [(''duration'', JInt 60)])])]])]"
         and feature = "[(''properties'', JObj [(''summary'', JObj [(''duration'', JInt 60)])])]"
         and properties = "[(''summary'', JObj [(''duration'', JInt 60)])]"
         and summary = "[(''duration'', JInt 60)]"]
    by simp
  have w6: "get_distance_attempt (\<lambda>s. None) (Reply True (Some (JObj [(''features'', JArr [])])))
       = Inl (ValueError ''ORS returned no features'')"
    using inst [where data = "[(''features'', JArr [])]"] by simp
  have w7: "get_distance_attempt (\<lambda>s. None) (Reply True (Some (JObj [])))
       = Inl (ValueError ''ORS returned no features'')"
    using inst [where data = "[]"] by simp
  from w1 w2 w3 t w4 w5 w6 w7 show ?thesis by simp
qed

subsection \<open>Retry policy\<close>

lemma retry_from_3: "retry fn 3 = (fn 3, [Attempt 3])"
  by (subst retry.simps) (simp add: stop_after_attempt_def split: sum.splits)

lemma retry_from_2:
  "retry fn 2 =
     (case fn 2 of
        Inr v \<Rightarrow> (fn 2, [Attempt 2])
      | Inl e \<Rightarrow> (fn 3, [Attempt 2, Sleep 2, Attempt 3]))"
proof -
  have s: "Suc 2 = 3" by simp
  show ?thesis
    by (subst retry.simps)
       (simp add: stop_after_attempt_def wait_exponential_def retry_from_3 s split: sum.splits)
qed

lemma retry_from_1:
  "retry fn 1 =
     (case fn 1 of
        Inr v \<Rightarrow> (fn 1, [Attempt 1])
      | Inl e \<Rightarrow>
          (case fn 2 of
             Inr v \<Rightarrow> (fn 2, [Attempt 1, Sleep 1, Attempt 2])
           | Inl e' \<Rightarrow> (fn 3, [Attempt 1, Sleep 1, Attempt 2, Sleep 2, Attempt 3])))"
proof -
  have step: "retry fn 1 =
      (case fn 1 of
         Inr v \<Rightarrow> (Inr v, [Attempt 1])
       | Inl e \<Rightarrow> (let (r, tr) = retry fn 2 in (r, Attempt 1 # Sleep 1 # tr)))"
    by (subst retry.simps)
       (simp add: stop_after_attempt_def wait_exponential_def numeral_2_eq_2 split: sum.splits)
  show ?thesis
    unfolding step retry_from_2 by (simp split: sum.splits)
qed

text \<open>
  C6. A resolution makes at most 3 attempts: it stops at the first attempt that
  succeeds, sleeps 1 time-unit after a failed first attempt and 2 after a failed second,
  and returns the outcome of the last attempt it made, so that the failure of a third
  attempt is the failure of the resolution. The wait after attempt \<open>n\<close> starts at 1,
  doubles with each attempt and lies between 1 and 10.
\<close>

theorem get_distance_km_retry_policy:
  "get_distance_km env task lat1 lon1 lat2 lon2 =
     (let att = (\<lambda>n. get_distance_attempt (str_float env)
                        (service env task ((lon1, lat1), (lon2, lat2)) n))
      in case att 1 of
           Inr v \<Rightarrow> (att 1, [Attempt 1])
         | Inl e \<Rightarrow>
             (case att 2 of
                Inr v \<Rightarrow> (att 2, [Attempt 1, Sleep 1, Attempt 2])
              | Inl e' \<Rightarrow> (att 3, [Attempt 1, Sleep 1, Attempt 2, Sleep 2, Attempt 3])))
   \<and> wait_exponential 1 10 1 = 1
   \<and> wait_exponential 1 10 (Suc (Suc n)) = min (2 * wait_exponential 1 10 (Suc n)) 10
   \<and> 1 \<le> wait_exponential 1 10 n \<and> wait_exponential 1 10 n \<le> 10"
proof -
  have "wait_exponential 1 10 (Suc (Suc n)) = min (2 * wait_exponential 1 10 (Suc n)) 10"
    by (simp add: wait_exponential_def min_def max_def)
  then show ?thesis
    unfolding get_distance_km_def Let_def retry_from_1
    by (simp add: wait_exponential_def)
qed

subsection \<open>The loop over the results\<close>

text \<open>On floats that are not NaN, \<open>float_lt\<close> is a strict linear order.\<close>

lemma float_lt_trans: "float_lt a b \<Longrightarrow> float_lt b c \<Longrightarrow> float_lt a c"
  by (cases a; cases b; cases c) simp_all

lemma float_lt_irrefl: "\<not> float_lt a a"
  by (cases a) simp_all

lemma float_lt_PosInf: "float_lt a b \<Longrightarrow> float_lt a PosInf"
  by (cases a; cases b) simp_all

lemma float_lt_PosInf_iff: "float_lt a PosInf \<longleftrightarrow> (a = NegInf \<or> (\<exists>r. a = Fin r))"
  by (cases a) simp_all

lemma float_le_lt_trans: "a \<noteq> NaN \<Longrightarrow> \<not> float_lt a b \<Longrightarrow> float_lt c b \<Longrightarrow> float_lt c a"
  by (cases a; cases b; cases c) simp_all

lemma best_loop_append: "best_loop (xs @ ys) st = best_loop ys (best_loop xs st)"
  by (induction xs st rule: best_loop.induct) simp_all

lemma best_loop_failed: "\<forall>x\<in>set os. isl (snd x) \<Longrightarrow> best_loop os st = st"
  by (induction os st rule: best_loop.induct) simp_all

lemma best_loop_invariant:
  "best_loop os (None, PosInf) = (b, bd) \<Longrightarrow>
     (b = None \<and> bd = PosInf \<and> (\<forall>j<length os. \<forall>d'. snd (os ! j) = Inr d' \<longrightarrow> \<not> float_lt d' PosInf))
   \<or> (\<exists>i tid. i < length os \<and> os ! i = (tid, Inr bd) \<and> b = Some tid \<and> float_lt bd PosInf
        \<and> (\<forall>j<length os. \<forall>d'. snd (os ! j) = Inr d' \<longrightarrow> \<not> float_lt d' bd)
        \<and> (\<forall>j<i. \<forall>d'. snd (os ! j) = Inr d' \<longrightarrow> d' \<noteq> NaN \<longrightarrow> float_lt bd d'))"
proof (induction os arbitrary: b bd rule: rev_induct)
  case Nil
  then show ?case by simp
next
  case (snoc x os)
  obtain tid r where x: "x = (tid, r)" by (cases x)
  obtain b0 bd0 where st: "best_loop os (None, PosInf) = (b0, bd0)" by (cases "best_loop os (None, PosInf)")
  note IH = snoc.IH [OF st]
  have res: "best_loop [x] (b0, bd0) = (b, bd)"
    using snoc.prems by (simp add: best_loop_append st)
  show ?case
  proof (cases r)
    case (Inl e)
    then have same: "b = b0" "bd = bd0" using res x by simp_all
    from IH show ?thesis
    proof
      assume "b0 = None \<and> bd0 = PosInf \<and> (\<forall>j<length os. \<forall>d'. snd (os ! j) = Inr d' \<longrightarrow> \<not> float_lt d' PosInf)"
      then show ?thesis using same x Inl
        by (auto simp: nth_append less_Suc_eq)
    next
      assume "\<exists>i tid. i < length os \<and> os ! i = (tid, Inr bd0) \<and> b0 = Some tid \<and> float_lt bd0 PosInf
        \<and> (\<forall>j<length os. \<forall>d'. snd (os ! j) = Inr d' \<longrightarrow> \<not> float_lt d' bd0)
        \<and> (\<forall>j<i. \<forall>d'. snd (os ! j) = Inr d' \<longrightarrow> d' \<noteq> NaN \<longrightarrow> float_lt bd0 d')"
      then obtain i t where i: "i < length os" "os ! i = (t, Inr bd0)" "b0 = Some t" "float_lt bd0 PosInf"
         "\<forall>j<length os. \<forall>d'. snd (os ! j) = Inr d' \<longrightarrow> \<not> float_lt d' bd0"
         "\<forall>j<i. \<forall>d'. snd (os ! j) = Inr d' \<longrightarrow> d' \<noteq> NaN \<longrightarrow> float_lt bd0 d'" by blast
      have "i < length (os @ [x]) \<and> (os @ [x]) ! i = (t, Inr bd) \<and> b = Some t \<and> float_lt bd PosInf
        \<and> (\<forall>j<length (os @ [x]). \<forall>d'. snd ((os @ [x]) ! j) = Inr d' \<longrightarrow> \<not> float_lt d' bd)
        \<and> (\<forall>j<i. \<forall>d'. snd ((os @ [x]) ! j) = Inr d' \<longrightarrow> d' \<noteq> NaN \<longrightarrow> float_lt bd d')"
        using i same x Inl by (auto simp: nth_append less_Suc_eq)
      then show ?thesis by blast
    qed
  next
    case (Inr d)
    show ?thesis
    proof (cases "float_lt d bd0")
      case True
      then have new: "b = Some tid" "bd = d" using res x Inr by simp_all
      have below: "\<forall>j<length os. \<forall>d'. snd (os ! j) = Inr d' \<longrightarrow> \<not> float_lt d' d"
        using IH True by (auto dest: float_lt_trans float_lt_PosInf)
      have above: "\<forall>j<length os. \<forall>d'. snd (os ! j) = Inr d' \<longrightarrow> d' \<noteq> NaN \<longrightarrow> float_lt d d'"
        using IH True by (auto dest: float_le_lt_trans float_lt_PosInf)
      have "length os < length (os @ [x]) \<and> (os @ [x]) ! length os = (tid, Inr bd) \<and> b = Some tid \<and> float_lt bd PosInf
        \<and> (\<forall>j<length (os @ [x]). \<forall>d'. snd ((os @ [x]) ! j) = Inr d' \<longrightarrow> \<not> float_lt d' bd)
        \<and> (\<forall>j<length os. \<forall>d'. snd ((os @ [x]) ! j) = Inr d' \<longrightarrow> d' \<noteq> NaN \<longrightarrow> float_lt bd d')"
        using new x Inr below above float_lt_PosInf [OF True]
        by (auto simp: nth_append less_Suc_eq float_lt_irrefl)
      then show ?thesis by blast
    next
      case False
      then have same: "b = b0" "bd = bd0" using res x Inr by simp_all
      from IH show ?thesis
      proof
        assume "b0 = None \<and> bd0 = PosInf \<and> (\<forall>j<length os. \<forall>d'. snd (os ! j) = Inr d' \<longrightarrow> \<not> float_lt d' PosInf)"
        then show ?thesis using same x Inr False
          by (auto simp: nth_append less_Suc_eq)
      next
        assume "\<exists>i tid. i < length os \<and> os ! i = (tid, Inr bd0) \<and> b0 = Some tid \<and> float_lt bd0 PosInf
          \<and> (\<forall>j<length os. \<forall>d'. snd (os ! j) = Inr d' \<longrightarrow> \<not> float_lt d' bd0)
          \<and> (\<forall>j<i. \<forall>d'. snd (os ! j) = Inr d' \<longrightarrow> d' \<noteq> NaN \<longrightarrow> float_lt bd0 d')"
        then obtain i t where i: "i < length os" "os ! i = (t, Inr bd0)" "b0 = Some t" "float_lt bd0 PosInf"
           "\<forall>j<length os. \<forall>d'. snd (os ! j) = Inr d' \<longrightarrow> \<not> float_lt d' bd0"
           "\<forall>j<i. \<forall>d'. snd (os ! j) = Inr d' \<longrightarrow> d' \<noteq> NaN \<longrightarrow> float_lt bd0 d'" by blast
        have "i < length (os @ [x]) \<and> (os @ [x]) ! i = (t, Inr bd) \<and> b = Some t \<and> float_lt bd PosInf
          \<and> (\<forall>j<length (os @ [x]). \<forall>d'. snd ((os @ [x]) ! j) = Inr d' \<longrightarrow> \<not> float_lt d' bd)
          \<and> (\<forall>j<i. \<forall>d'. snd ((os @ [x]) ! j) = Inr d' \<longrightarrow> d' \<noteq> NaN \<longrightarrow> float_lt bd d')"
          using i same x Inr False by (auto simp: nth_append less_Suc_eq)
        then show ?thesis by blast
      qed
    qed
  qed
qed

subsection \<open>The scenario, evaluated\<close>

lemma get_distance_attempt_route_body [simp]: "get_distance_attempt sf (Reply True (Some (route_body (JFloat x)))) = Inr (div_1000 x)"
  by (simp add: get_distance_attempt_def route_body_def bind_err_def py_or_def)

lemma get_distance_km_route_env: "get_distance_km (route_env (JFloat x)) task a b c d = (Inr (div_1000 x), [Attempt 1])"
  unfolding get_distance_km_def Let_def retry_from_1 by (simp add: route_env_def)

lemma get_distance_km_down_env: "get_distance_km down_env task a b c d = (Inl TransportError, [Attempt 1, Sleep 1, Attempt 2, Sleep 2, Attempt 3])"
  unfolding get_distance_km_def Let_def retry_from_1 by (simp add: down_env_def get_distance_attempt_def)

lemma scenario_active: "fetch_active_technicians scenario_store = [\<lparr>technicianid = 7, latitude = 0, longitude = 1, is_active = Some True\<rparr>]"
  by (simp add: fetch_active_technicians_def scenario_store_def)
lemma scenario_shortlist: "shortlist 0 0 [\<lparr>technicianid = 7, latitude = 0, longitude = 1, is_active = Some True\<rparr>] = [(haversine_km 0 0 0 1, 7, 0, 1)]"
  by (simp add: shortlist_def TOP_K_def)

lemma scenario_customer: "fetch_customer scenario_store 1 = Inr (Some \<lparr>customerid = 1, cust_latitude = 0, cust_longitude = 0\<rparr>)"
  by (simp add: fetch_customer_def int4_range_def scenario_store_def)

lemma team_customer: "fetch_customer team_store 1 = Inr (Some \<lparr>customerid = 1, cust_latitude = 0, cust_longitude = 0\<rparr>)"
  by (simp add: fetch_customer_def int4_range_def team_store_def)

lemma team_active: "fetch_active_technicians team_store =
   [\<lparr>technicianid = 7, latitude = 0, longitude = 1, is_active = Some True\<rparr>,
         \<lparr>technicianid = 8, latitude = 0, longitude = 1, is_active = Some True\<rparr>,
         \<lparr>technicianid = 9, latitude = 0, longitude = 1, is_active = Some True\<rparr>]"
  by (simp add: fetch_active_technicians_def team_store_def)

lemma team_shortlist: "shortlist 0 0 (fetch_active_technicians team_store) =
   [(haversine_km 0 0 0 1, 7, 0, 1), (haversine_km 0 0 0 1, 8, 0, 1), (haversine_km 0 0 0 1, 9, 0, 1)]"
  by (simp add: team_active shortlist_def TOP_K_def)

lemma team_get_distance_km:
  "get_distance_km team_env task a b c d = (Inr (Fin (if task = 0 then 5 else 3)), [Attempt 1])"
  unfolding get_distance_km_def Let_def retry_from_1 by (simp add: team_env_def)

lemma team_outcomes: "outcomes (shortlist 0 0 (fetch_active_technicians team_store))
     (run_tasks team_env 0 0 (shortlist 0 0 (fetch_active_technicians team_store)))
   = [(7, Inr (Fin 5)), (8, Inr (Fin 3)), (9, Inr (Fin 3))]"
  by (simp add: team_shortlist outcomes_def run_tasks_def team_get_distance_km enumerate_simps)

subsection \<open>Dispatch\<close>


lemma dispatch_one_reached:
  assumes "fetch_customer s cid = Inr (Some c)" "fetch_active_technicians s \<noteq> []"
    and "sl = shortlist (cust_latitude c) (cust_longitude c) (fetch_active_technicians s)"
    and "tasks = run_tasks env (cust_latitude c) (cust_longitude c) sl"
  shows "fst (dispatch_one env s cid) =
           (case best_loop (outcomes sl tasks) (None, PosInf) of
              (None, best_dist) \<Rightarrow> Inl NoResolvableTechnician
            | (Some tid, best_dist) \<Rightarrow> Inr (fst (insert_assignment s cid tid best_dist)))"
    and "fst (snd (dispatch_one env s cid)) =
           (case best_loop (outcomes sl tasks) (None, PosInf) of
              (None, best_dist) \<Rightarrow> s
            | (Some tid, best_dist) \<Rightarrow> snd (insert_assignment s cid tid best_dist))"
  using assms
  by (simp_all add: dispatch_one_def Let_def split: prod.splits option.splits)

lemma dispatch_one_Inr:
  assumes "dispatch_one env s cid = (Inr a, s', routing)"
  shows "\<exists>c. fetch_customer s cid = Inr (Some c) \<and> fetch_active_technicians s \<noteq> [] \<and>
           (let sl = shortlist (cust_latitude c) (cust_longitude c) (fetch_active_technicians s);
                tasks = run_tasks env (cust_latitude c) (cust_longitude c) sl
            in best_loop (outcomes sl tasks) (None, PosInf) = (Some (tech_id a), distance_km a)
               \<and> (a, s') = insert_assignment s cid (tech_id a) (distance_km a))"
  using assms
  by (auto simp: dispatch_one_def Let_def insert_assignment_def
        split: sum.splits prod.splits option.splits if_splits)

lemma length_run_tasks: "length (run_tasks env a b sl) = length sl"
  by (simp add: run_tasks_def)

lemma outcomes_nth:
  "i < length sl \<Longrightarrow> fst (outcomes sl (run_tasks env a b sl) ! i) = fst (snd (sl ! i))"
  by (simp add: outcomes_def length_run_tasks case_prod_beta)

lemma length_outcomes: "length (outcomes sl (run_tasks env a b sl)) = length sl"
  by (simp add: outcomes_def length_run_tasks)

text \<open>
  C1, as the code has it. When the customer exists, there are active technicians and some
  resolution returned a distance below \<open>+inf\<close> (so neither NaN nor \<open>+inf\<close>), the call
  returns an assignment to the technician at a position of the shortlist whose resolution
  returned such a distance, with that distance: no resolution returned a smaller one, and
  every number returned at an earlier position is strictly greater, so that of equal
  least distances the one at the earliest position of the shortlist is taken.
\<close>

theorem dispatch_one_selects_first_minimum:
  assumes "fetch_customer s cid = Inr (Some c)" and "fetch_active_technicians s \<noteq> []"
    and "sl = shortlist (cust_latitude c) (cust_longitude c) (fetch_active_technicians s)"
    and "os = outcomes sl (run_tasks env (cust_latitude c) (cust_longitude c) sl)"
    and "\<exists>j<length os. \<exists>d'. snd (os ! j) = Inr d' \<and> float_lt d' PosInf"
  shows "\<exists>i tid d. i < length sl \<and> fst (snd (sl ! i)) = tid \<and> os ! i = (tid, Inr d)
           \<and> float_lt d PosInf
           \<and> fst (dispatch_one env s cid) =
               Inr \<lparr>assignment_id = assignments_id_seq s, cust_id = cid, tech_id = tid,
                     distance_km = d, assigned_at = clock s\<rparr>
           \<and> (\<forall>j<length os. \<forall>d'. snd (os ! j) = Inr d' \<longrightarrow> \<not> float_lt d' d)
           \<and> (\<forall>j<i. \<forall>d'. snd (os ! j) = Inr d' \<longrightarrow> d' \<noteq> NaN \<longrightarrow> float_lt d d')"
proof -
  obtain b bd where st: "best_loop os (None, PosInf) = (b, bd)"
    by (cases "best_loop os (None, PosInf)")
  from best_loop_invariant [OF st] assms(5)
  obtain i tid where i: "i < length os" "os ! i = (tid, Inr bd)" "b = Some tid"
      "float_lt bd PosInf"
      "\<forall>j<length os. \<forall>d'. snd (os ! j) = Inr d' \<longrightarrow> \<not> float_lt d' bd"
      "\<forall>j<i. \<forall>d'. snd (os ! j) = Inr d' \<longrightarrow> d' \<noteq> NaN \<longrightarrow> float_lt bd d'"
    by blast
  have len: "i < length sl"
    using i(1) by (simp add: assms(4) length_outcomes)
  have tid: "fst (snd (sl ! i)) = tid"
    using outcomes_nth [OF len, of env "cust_latitude c" "cust_longitude c"] i(2)
    by (simp add: assms(4))
  have "fst (dispatch_one env s cid) = Inr (fst (insert_assignment s cid tid bd))"
    using dispatch_one_reached(1) [OF assms(1,2) assms(3) refl, of env] st i(3)
    by (simp add: assms(4))
  then have "fst (dispatch_one env s cid) =
      Inr \<lparr>assignment_id = assignments_id_seq s, cust_id = cid, tech_id = tid,
            distance_km = bd, assigned_at = clock s\<rparr>"
    by (simp add: insert_assignment_def Let_def)
  with len tid i show ?thesis by blast
qed

theorem dispatch_one_selects_first_minimum_witness:
  "fetch_customer team_store 1 = Inr (Some \<lparr>customerid = 1, cust_latitude = 0, cust_longitude = 0\<rparr>)
   \<and> fetch_active_technicians team_store \<noteq> []
   \<and> outcomes (shortlist 0 0 (fetch_active_technicians team_store))
        (run_tasks team_env 0 0 (shortlist 0 0 (fetch_active_technicians team_store)))
       = [(7, Inr (Fin 5)), (8, Inr (Fin 3)), (9, Inr (Fin 3))]
   \<and> (\<exists>i tid d. i < length (shortlist 0 0 (fetch_active_technicians team_store))
         \<and> [(7, Inr (Fin 5)), (8, Inr (Fin 3)), (9::int, Inr (Fin 3) :: py_error + pyfloat)] ! i
             = (tid, Inr d)
         \<and> fst (dispatch_one team_env team_store 1) =
             Inr \<lparr>assignment_id = 1, cust_id = 1, tech_id = tid, distance_km = d, assigned_at = 0\<rparr>
         \<and> i = 1 \<and> tid = 8 \<and> d = Fin 3)"
proof -
  let ?c = "\<lparr>customerid = 1, cust_latitude = 0, cust_longitude = 0\<rparr>"
  let ?sl = "shortlist (cust_latitude ?c) (cust_longitude ?c) (fetch_active_technicians team_store)"
  let ?os = "outcomes ?sl (run_tasks team_env (cust_latitude ?c) (cust_longitude ?c) ?sl)"
  have os: "?os = [(7, Inr (Fin 5)), (8, Inr (Fin 3)), (9, Inr (Fin 3))]"
    using team_outcomes by simp
  have h2: "fetch_active_technicians team_store \<noteq> []"
    by (simp add: team_active)
  have h5: "\<exists>j<length ?os. \<exists>d'. snd (?os ! j) = Inr d' \<and> float_lt d' PosInf"
    unfolding os by (rule exI [of _ 0]) simp
  from dispatch_one_selects_first_minimum [OF team_customer h2 refl refl h5]
  obtain i tid d where r: "i < length ?sl" "?os ! i = (tid, Inr d)"
      "fst (dispatch_one team_env team_store 1) =
         Inr \<lparr>assignment_id = assignments_id_seq team_store, cust_id = 1, tech_id = tid,
               distance_km = d, assigned_at = clock team_store\<rparr>"
      "\<forall>j<length ?os. \<forall>d'. snd (?os ! j) = Inr d' \<longrightarrow> \<not> float_lt d' d"
      "\<forall>j<i. \<forall>d'. snd (?os ! j) = Inr d' \<longrightarrow> d' \<noteq> NaN \<longrightarrow> float_lt d d'"
    by blast
  have len: "length ?sl = 3"
    using team_shortlist by simp
  from r(1) len consider "i = 0" | "i = 1" | "i = 2" by force
  then have i1: "i = 1"
  proof cases
    case 1
    with r(2) os have "d = Fin 5" by simp
    with r(4) os have "\<not> float_lt (Fin 3) (Fin 5)"
      by (auto dest!: spec [of _ 1])
    then show ?thesis by simp
  next
    case 2
    then show ?thesis .
  next
    case 3
    with r(2) os have "d = Fin 3" by simp
    with r(5) 3 os have "float_lt (Fin 3) (Fin 3)"
      by (auto dest!: spec [of _ 1])
    then show ?thesis by simp
  qed
  with r(2) os have td: "tid = 8" "d = Fin 3" by simp_all
  have st: "assignments_id_seq team_store = 1" "clock team_store = 0"
    by (simp_all add: team_store_def)
  from r(1) r(2) r(3) i1 td os st team_customer h2 team_outcomes show ?thesis
    by simp
qed

text \<open>
  C1 as stated fails: in the scenario, with a route of distance \<open>+inf\<close> (the JSON
  number \<^verbatim>\<open>1e999\<close>), the one resolution succeeds and the call selects nobody.
\<close>

theorem dispatch_one_infinite_distance_counterexample:
  "map fst (run_tasks (route_env (JFloat PosInf)) 0 0 (shortlist 0 0 (fetch_active_technicians scenario_store))) = [Inr PosInf]
   \<and> fst (dispatch_one (route_env (JFloat PosInf)) scenario_store 1) = Inl NoResolvableTechnician"
  by (simp add: dispatch_one_def scenario_customer scenario_active scenario_shortlist run_tasks_def get_distance_km_route_env outcomes_def Let_def)




text \<open>
  C3. When the customer exists, there are active technicians and the resolution of every
  candidate of the shortlist fails: the call fails with \<open>NoResolvableTechnician\<close>
  (503) and the store is as before.
\<close>

theorem all_resolutions_fail:
  assumes "fetch_customer s cid = Inr (Some c)" and "fetch_active_technicians s \<noteq> []"
    and "\<forall>t\<in>set (run_tasks env (cust_latitude c) (cust_longitude c)
                  (shortlist (cust_latitude c) (cust_longitude c) (fetch_active_technicians s))).
           isl (fst t)"
  shows "fst (dispatch_one env s cid) = Inl NoResolvableTechnician
       \<and> status_code NoResolvableTechnician = 503
       \<and> fst (snd (dispatch_one env s cid)) = s"
proof -
  let ?sl = "shortlist (cust_latitude c) (cust_longitude c) (fetch_active_technicians s)"
  let ?tasks = "run_tasks env (cust_latitude c) (cust_longitude c) ?sl"
  have "\<forall>x\<in>set (outcomes ?sl ?tasks). isl (snd x)"
    using assms(3) by (auto simp: outcomes_def dest!: set_zip_rightD)
  then have "best_loop (outcomes ?sl ?tasks) (None, PosInf) = (None, PosInf)"
    by (rule best_loop_failed)
  then show ?thesis
    using dispatch_one_reached [OF assms(1,2) refl refl, of env] by simp
qed

theorem all_resolutions_fail_witness:
  "fetch_customer scenario_store 1 = Inr (Some \<lparr>customerid = 1, cust_latitude = 0, cust_longitude = 0\<rparr>)
   \<and> fetch_active_technicians scenario_store \<noteq> []
   \<and> map fst (run_tasks down_env 0 0 (shortlist 0 0 (fetch_active_technicians scenario_store)))
       = [Inl TransportError]
   \<and> fst (dispatch_one down_env scenario_store 1) = Inl NoResolvableTechnician
   \<and> fst (snd (dispatch_one down_env scenario_store 1)) = scenario_store"
proof -
  have h3: "\<forall>t\<in>set (run_tasks down_env (cust_latitude \<lparr>customerid = 1, cust_latitude = 0, cust_longitude = 0\<rparr>)
                (cust_longitude \<lparr>customerid = 1, cust_latitude = 0, cust_longitude = 0\<rparr>)
                (shortlist (cust_latitude \<lparr>customerid = 1, cust_latitude = 0, cust_longitude = 0\<rparr>)
                    (cust_longitude \<lparr>customerid = 1, cust_latitude = 0, cust_longitude = 0\<rparr>)
                    (fetch_active_technicians scenario_store))). isl (fst t)"
    by (simp add: scenario_active scenario_shortlist run_tasks_def get_distance_km_down_env)
  have h2: "fetch_active_technicians scenario_store \<noteq> []" by (simp add: scenario_active)
  have h3': "map fst (run_tasks down_env 0 0 (shortlist 0 0 (fetch_active_technicians scenario_store)))
       = [Inl TransportError]"
    by (simp add: scenario_active scenario_shortlist run_tasks_def get_distance_km_down_env)
  from all_resolutions_fail [OF scenario_customer h2 h3] scenario_customer h2 h3' show ?thesis by simp
qed

text \<open>
  C5. A call that returns an assignment has appended exactly that assignment to the
  table and changed no other table. Its customer is the one asked for, its technician and
  distance are those the loop over the results ended on, its identifier is the next value
  of the sequence and its timestamp the clock of the store.
\<close>

theorem dispatch_one_inserts_winner:
  assumes "dispatch_one env s cid = (Inr a, s', routing)"
  shows "assignments s' = assignments s @ [a]
       \<and> customers s' = customers s \<and> technicians s' = technicians s
       \<and> cust_id a = cid
       \<and> (\<exists>c. fetch_customer s cid = Inr (Some c) \<and>
             (let sl = shortlist (cust_latitude c) (cust_longitude c) (fetch_active_technicians s);
                  tasks = run_tasks env (cust_latitude c) (cust_longitude c) sl
              in best_loop (outcomes sl tasks) (None, PosInf) = (Some (tech_id a), distance_km a)))
       \<and> assignment_id a = assignments_id_seq s
       \<and> assigned_at a = clock s"
proof -
  from dispatch_one_Inr [OF assms] obtain c where c: "fetch_customer s cid = Inr (Some c)"
    and w: "let sl = shortlist (cust_latitude c) (cust_longitude c) (fetch_active_technicians s);
                tasks = run_tasks env (cust_latitude c) (cust_longitude c) sl
            in best_loop (outcomes sl tasks) (None, PosInf) = (Some (tech_id a), distance_km a)
               \<and> (a, s') = insert_assignment s cid (tech_id a) (distance_km a)"
    by blast
  from w have ins: "(a, s') = insert_assignment s cid (tech_id a) (distance_km a)"
    by (simp add: Let_def)
  from ins have a: "a = \<lparr>assignment_id = assignments_id_seq s, cust_id = cid, tech_id = tech_id a,
                 distance_km = distance_km a, assigned_at = clock s\<rparr>"
     and s': "s' = s\<lparr>assignments := assignments s @ [a], assignments_id_seq := assignments_id_seq s + 1\<rparr>"
    by (simp_all add: insert_assignment_def Let_def)
  have "assignment_id a = assignments_id_seq s \<and> cust_id a = cid \<and> assigned_at a = clock s"
    by (subst a, subst (2) a, subst (3) a) simp
  moreover have "assignments s' = assignments s @ [a] \<and> customers s' = customers s \<and> technicians s' = technicians s"
    by (simp add: s')
  ultimately show ?thesis using c w by (auto simp: Let_def)
qed

theorem dispatch_one_inserts_winner_witness:
  "dispatch_one (route_env (JFloat (Fin 111000))) scenario_store 1 =
     (Inr \<lparr>assignment_id = 1, cust_id = 1, tech_id = 7, distance_km = Fin 111, assigned_at = 0\<rparr>,
      scenario_store\<lparr>assignments :=
          [\<lparr>assignment_id = 1, cust_id = 1, tech_id = 7, distance_km = Fin 111, assigned_at = 0\<rparr>],
        assignments_id_seq := 2\<rparr>,
      [(((0, 0), (1, 0)), [Attempt 1])])
   \<and> assignments (fst (snd (dispatch_one (route_env (JFloat (Fin 111000))) scenario_store 1)))
       = assignments scenario_store
         @ [\<lparr>assignment_id = 1, cust_id = 1, tech_id = 7, distance_km = Fin 111, assigned_at = 0\<rparr>]"
proof -
  have h: "dispatch_one (route_env (JFloat (Fin 111000))) scenario_store 1 =
     (Inr \<lparr>assignment_id = 1, cust_id = 1, tech_id = 7, distance_km = Fin 111, assigned_at = 0\<rparr>,
      scenario_store\<lparr>assignments :=
          [\<lparr>assignment_id = 1, cust_id = 1, tech_id = 7, distance_km = Fin 111, assigned_at = 0\<rparr>],
        assignments_id_seq := 2\<rparr>,
      [(((0, 0), (1, 0)), [Attempt 1])])"
    by (simp add: dispatch_one_def scenario_customer scenario_active scenario_shortlist run_tasks_def get_distance_km_route_env outcomes_def
          insert_assignment_def Let_def)
       (simp add: scenario_store_def)
  from dispatch_one_inserts_winner [OF h] h show ?thesis by simp
qed

text \<open>
  C8 as stated fails: in the scenario, with a route of distance -1000, the call stores
  the distance -1.
\<close>

theorem dispatch_one_negative_distance_counterexample:
  "fst (dispatch_one (route_env (JFloat (Fin (- 1000)))) scenario_store 1) =
     Inr \<lparr>assignment_id = 1, cust_id = 1, tech_id = 7, distance_km = Fin (- 1), assigned_at = 0\<rparr>
   \<and> float_lt (Fin (- 1)) (Fin 0)"
  by (simp add: dispatch_one_def scenario_customer scenario_active scenario_shortlist run_tasks_def get_distance_km_route_env outcomes_def
        insert_assignment_def Let_def)
     (simp add: scenario_store_def)

text \<open>
  C8, as the code has it. A call that returns an assignment stores a distance that is a
  finite number and not negative, provided that no resolution of the call returned a
  negative distance.
\<close>

theorem stored_distance_nonnegative:
  assumes "dispatch_one env s cid = (Inr a, s', routing)"
    and "fetch_customer s cid = Inr (Some c)"
    and "\<forall>t\<in>set (run_tasks env (cust_latitude c) (cust_longitude c)
                  (shortlist (cust_latitude c) (cust_longitude c) (fetch_active_technicians s))).
           \<forall>d. fst t = Inr d \<longrightarrow> \<not> float_lt d (Fin 0)"
  shows "\<exists>r. distance_km a = Fin r \<and> 0 \<le> r"
proof -
  let ?sl = "shortlist (cust_latitude c) (cust_longitude c) (fetch_active_technicians s)"
  let ?tasks = "run_tasks env (cust_latitude c) (cust_longitude c) ?sl"
  let ?os = "outcomes ?sl ?tasks"
  from dispatch_one_Inr [OF assms(1)] assms(2)
  have best: "best_loop ?os (None, PosInf) = (Some (tech_id a), distance_km a)"
    by (auto simp: Let_def)
  from best_loop_invariant [OF best] obtain i where i: "i < length ?os"
      "?os ! i = (tech_id a, Inr (distance_km a))" "float_lt (distance_km a) PosInf"
    by auto
  from i(1,2) have "(tech_id a, Inr (distance_km a)) \<in> set ?os"
    by (metis nth_mem)
  then have "Inr (distance_km a) \<in> fst ` set ?tasks"
    by (auto simp: outcomes_def dest!: set_zip_rightD)
  with assms(3) have "\<not> float_lt (distance_km a) (Fin 0)" by force
  with i(3) show ?thesis
    by (cases "distance_km a") simp_all
qed

theorem stored_distance_nonnegative_witness:
  "fst (dispatch_one (route_env (JFloat (Fin 111000))) scenario_store 1) =
     Inr \<lparr>assignment_id = 1, cust_id = 1, tech_id = 7, distance_km = Fin 111, assigned_at = 0\<rparr>
   \<and> map fst (run_tasks (route_env (JFloat (Fin 111000))) 0 0
                 (shortlist 0 0 (fetch_active_technicians scenario_store))) = [Inr (Fin 111)]
   \<and> (\<exists>r. distance_km \<lparr>assignment_id = 1, cust_id = 1, tech_id = 7, distance_km = Fin 111,
                         assigned_at = (0::int)\<rparr> = Fin r \<and> 0 \<le> r)"
proof -
  let ?c = "\<lparr>customerid = 1, cust_latitude = 0, cust_longitude = 0\<rparr>"
  have h1: "dispatch_one (route_env (JFloat (Fin 111000))) scenario_store 1 =
     (Inr \<lparr>assignment_id = 1, cust_id = 1, tech_id = 7, distance_km = Fin 111, assigned_at = 0\<rparr>,
      scenario_store\<lparr>assignments :=
          [\<lparr>assignment_id = 1, cust_id = 1, tech_id = 7, distance_km = Fin 111, assigned_at = 0\<rparr>],
        assignments_id_seq := 2\<rparr>,
      [(((0, 0), (1, 0)), [Attempt 1])])"
    by (simp add: dispatch_one_def scenario_customer scenario_active scenario_shortlist run_tasks_def get_distance_km_route_env outcomes_def
          insert_assignment_def Let_def)
       (simp add: scenario_store_def)
  have tasks: "map fst (run_tasks (route_env (JFloat (Fin 111000))) 0 0
                 (shortlist 0 0 (fetch_active_technicians scenario_store))) = [Inr (Fin 111)]"
    by (simp add: scenario_active scenario_shortlist run_tasks_def get_distance_km_route_env)
  have h3: "\<forall>t\<in>set (run_tasks (route_env (JFloat (Fin 111000))) (cust_latitude ?c) (cust_longitude ?c)
                  (shortlist (cust_latitude ?c) (cust_longitude ?c)
                     (fetch_active_technicians scenario_store))).
           \<forall>d. fst t = Inr d \<longrightarrow> \<not> float_lt d (Fin 0)"
    by (simp add: scenario_active scenario_shortlist run_tasks_def get_distance_km_route_env)
  from stored_distance_nonnegative [OF h1 scenario_customer h3] h1 tasks show ?thesis by simp
qed

subsection \<open>Listing\<close>

lemma list_assignments_sort:
  "list_assignments s = sort_key (\<lambda>r. - assigned_at r) (assignments s)"
proof -
  have "(\<lambda>r. \<lparr>assignment_id = assignment_id r, cust_id = cust_id r, tech_id = tech_id r,
              distance_km = distance_km r, assigned_at = assigned_at r\<rparr>)
        = (\<lambda>r::assignment. r)"
    by (intro ext assignment.equality) simp_all
  then show ?thesis by (simp add: list_assignments_def)
qed

lemma sorted_uminus_rev: "sorted (map uminus xs) \<Longrightarrow> sorted (rev (xs::int list))"
  by (induction xs) (auto simp: sorted_append)

text \<open>
  C10. The listing returns the stored assignments, each exactly once and with its fields
  as stored, the most recent first: read backwards, the timestamps ascend.
\<close>

theorem list_assignments_all_descending:
  "mset (list_assignments s) = mset (assignments s)
   \<and> sorted (rev (map assigned_at (list_assignments s)))"
proof -
  have "sorted (map (\<lambda>r. - assigned_at r) (list_assignments s))"
    unfolding list_assignments_sort by (rule sorted_sort_key)
  then have "sorted (map uminus (map assigned_at (list_assignments s)))"
    by (simp add: comp_def)
  then have "sorted (rev (map assigned_at (list_assignments s)))"
    by (rule sorted_uminus_rev)
  then show ?thesis by (simp add: list_assignments_sort)
qed

end
